theory Spec2Isabelle
  imports Complex_Main
begin

section \<open>The REST client of mlflow/utils/rest\_utils.py\<close>

text \<open>
  A shallow embedding of \<^verbatim>\<open>src/mlflow/utils/rest_utils.py\<close>. A Python \<^verbatim>\<open>str\<close> is the
  list of its UTF-8 bytes, so that concatenation, equality, emptiness and
  \<^verbatim>\<open>startswith\<close> are those of the byte lists and \<^verbatim>\<open>.encode("utf-8")\<close> is the identity.
  A raised exception is the \<open>Inl\<close> of a sum, a returned value the \<open>Inr\<close>.
  What the third-party libraries do (json, requests, urllib3) is a parameter of the
  functions that call them: \<open>loads\<close> for \<^verbatim>\<open>json.loads\<close>, \<open>srv\<close> for what a
  \<^verbatim>\<open>requests.Session\<close> answers. The retry loop of urllib3, which the source
  configures and never runs itself, is given in a subsection of its own, as one such
  session.
\<close>

subsection \<open>Python values\<close>

text \<open>The values \<^verbatim>\<open>json.loads\<close> returns: None, bool, int, float, str, list, dict.\<close>

datatype json =
    JNull
  | JBool bool
  | JInt int
  | JFloat real
  | JStr string
  | JArr "json list"
  | JObj "(string \<times> json) list"


text \<open>\<^verbatim>\<open>str(n)\<close> for an int, as \<^verbatim>\<open>"%s" % n\<close> prints it.\<close>

fun digit :: "nat \<Rightarrow> char" where
  "digit n = ''0123456789'' ! (n mod 10)"

fun str_nat :: "nat \<Rightarrow> string" where
  "str_nat n = (if n < 10 then [digit n] else str_nat (n div 10) @ [digit (n mod 10)])"

declare str_nat.simps [simp del]

definition str_int :: "int \<Rightarrow> string" where
  "str_int i = (if i < 0 then CHR ''-'' # str_nat (nat (- i)) else str_nat (nat i))"

text \<open>\<^verbatim>\<open>s.startswith(p)\<close>.\<close>

definition startswith :: "string \<Rightarrow> string \<Rightarrow> bool" where
  "startswith s p = (take (length p) s = p)"

text \<open>\<^verbatim>\<open>s.endswith(p)\<close>.\<close>

definition endswith :: "string \<Rightarrow> string \<Rightarrow> bool" where
  "endswith s p = (length p \<le> length s \<and> drop (length s - length p) s = p)"



text \<open>Truthiness of an optional string: None and the empty string are false.\<close>

fun truthy :: "string option \<Rightarrow> bool" where
  "truthy None = False"
| "truthy (Some s) = (s \<noteq> [])"

subsection \<open>Exceptions\<close>

text \<open>
  The error codes of \<^verbatim>\<open>mlflow.protos.databricks_pb2\<close> that the file uses:
  \<^verbatim>\<open>INVALID_PARAMETER_VALUE\<close> by name, \<^verbatim>\<open>INTERNAL_ERROR\<close> as the default of
  \<^verbatim>\<open>MlflowException\<close>.
\<close>

datatype error_code = INTERNAL_ERROR | INVALID_PARAMETER_VALUE

text \<open>
  An exception is its class with the arguments it was raised with.
  \<open>RequestException s\<close> stands for any exception raised inside requests or urllib3,
  \<open>s\<close> being its \<^verbatim>\<open>str\<close>; \<open>JSONDecodeError\<close> is what \<^verbatim>\<open>json.loads\<close> raises;
  \<open>ParseError s\<close> is what \<^verbatim>\<open>parse_dict\<close> raises. \<open>MlflowException\<close> and
  \<open>RestException\<close> are the classes of \<^verbatim>\<open>mlflow.exceptions\<close>, the first raised with a
  message and an error code, the second with the parsed body of a response; what their
  constructors make of the arguments is not in this file. All of these are instances of
  \<^verbatim>\<open>Exception\<close>: what \<^verbatim>\<open>except Exception\<close> lets through (\<^verbatim>\<open>KeyboardInterrupt\<close>,
  \<^verbatim>\<open>SystemExit\<close>) is not modelled.
\<close>

datatype exn =
    AssertionError
  | KeyError string
  | ValueError string
  | JSONDecodeError
  | ParseError string
  | RequestException string
  | MlflowException string error_code
  | RestException json

text \<open>
  \<^verbatim>\<open>str(e)\<close>, as \<^verbatim>\<open>"%s" % e\<close> prints an exception: empty for a bare
  \<^verbatim>\<open>AssertionError\<close>, the repr of the key for a \<^verbatim>\<open>KeyError\<close>, the message for a
  \<^verbatim>\<open>ValueError\<close> and for an exception of requests. The \<^verbatim>\<open>str\<close> of the other
  exceptions is fixed by classes that are not in this file, and no code here prints one:
  it is left unspecified.
\<close>

fun str_exn :: "exn \<Rightarrow> string" where
  "str_exn AssertionError = []"
| "str_exn (KeyError k) = [CHR 0x27] @ k @ [CHR 0x27]"
| "str_exn (ValueError m) = m"
| "str_exn (RequestException m) = m"

subsection \<open>Responses and their verification\<close>

record response =
  status_code :: int
  resp_text :: string

definition REST_API_PATH_PREFIX :: string where
  "REST_API_PATH_PREFIX = ''/api/2.0''"

text \<open>
  \<^verbatim>\<open>_can_parse_as_json\<close>: \<^verbatim>\<open>json.loads\<close> is the parameter \<open>loads\<close>, \<open>None\<close> where it
  raises.
\<close>

definition can_parse_as_json :: "(string \<Rightarrow> json option) \<Rightarrow> string \<Rightarrow> bool" where
  "can_parse_as_json loads s = (case loads s of Some j \<Rightarrow> True | None \<Rightarrow> False)"

text \<open>
  \<^verbatim>\<open>verify_rest_response\<close>. The two messages are built as the source builds them, with
  \<^verbatim>\<open>%s\<close> filled by the endpoint, the status code and the body.
\<close>

definition verify_rest_response ::
  "(string \<Rightarrow> json option) \<Rightarrow> response \<Rightarrow> string \<Rightarrow> exn + response" where
  "verify_rest_response loads resp endpoint =
     (if status_code resp \<noteq> 200 then
        (if can_parse_as_json loads (resp_text resp) then
           (case loads (resp_text resp) of
              Some j \<Rightarrow> Inl (RestException j)
            | None \<Rightarrow> Inl JSONDecodeError)
         else
           Inl (MlflowException
             (''API request to endpoint '' @ endpoint @ '' failed with error code ''
                @ str_int (status_code resp) @ '' != 200''
                @ ''. Response body: '' @ [CHR 0x27] @ resp_text resp @ [CHR 0x27])
             INTERNAL_ERROR))
      else if startswith endpoint REST_API_PATH_PREFIX
              \<and> \<not> can_parse_as_json loads (resp_text resp) then
        Inl (MlflowException
          (''API request to endpoint was successful but the response body was not ''
             @ ''in a valid JSON format''
             @ ''. Response body: '' @ [CHR 0x27] @ resp_text resp @ [CHR 0x27])
          INTERNAL_ERROR)
      else Inr resp)"

subsection \<open>MlflowHostCreds\<close>

record MlflowHostCreds =
  host :: string
  username :: "string option"
  password :: "string option"
  token :: "string option"
  ignore_tls_verification :: bool
  client_cert_path :: "string option"
  server_cert_path :: "string option"

text \<open>
  \<^verbatim>\<open>MlflowHostCreds.__init__\<close>, with the instance passed explicitly: \<open>self\<close> is the
  fields stored on the instance so far (\<open>None\<close> for the fresh object that
  \<^verbatim>\<open>__init__\<close> receives), and the result is the exception raised, if any, with the
  fields stored when \<^verbatim>\<open>__init__\<close> ends. The seven assignments follow both checks.
\<close>

definition MlflowHostCreds_init ::
  "MlflowHostCreds option \<Rightarrow> string \<Rightarrow> string option \<Rightarrow> string option \<Rightarrow> string option
     \<Rightarrow> bool \<Rightarrow> string option \<Rightarrow> string option \<Rightarrow> exn option \<times> MlflowHostCreds option" where
  "MlflowHostCreds_init self host' username' password' token' ignore_tls_verification'
       client_cert_path' server_cert_path' =
     (if host' = [] then
        (Some (MlflowException ''host is a required parameter for MlflowHostCreds''
                 INVALID_PARAMETER_VALUE), self)
      else if ignore_tls_verification' \<and> server_cert_path' \<noteq> None then
        (Some (MlflowException
                 (''When '' @ [CHR 0x27] @ ''ignore_tls_verification'' @ [CHR 0x27]
                    @ '' is true then '' @ [CHR 0x27] @ ''server_cert_path'' @ [CHR 0x27] @ '' ''
                    @ ''must not be set! This error may have occurred because the ''
                    @ [CHR 0x27] @ ''MLFLOW_TRACKING_INSECURE_TLS'' @ [CHR 0x27] @ '' and ''
                    @ [CHR 0x27] @ ''MLFLOW_TRACKING_SERVER_CERT_PATH'' @ [CHR 0x27] @ '' ''
                    @ ''environment variables are both set - only one of these environment ''
                    @ ''variables may be set.'')
                 INVALID_PARAMETER_VALUE), self)
      else
        (None, Some \<lparr>host = host', username = username', password = password',
                      token = token', ignore_tls_verification = ignore_tls_verification',
                      client_cert_path = client_cert_path',
                      server_cert_path = server_cert_path'\<rparr>))"

subsection \<open>The retry policy and the session\<close>

text \<open>
  A \<^verbatim>\<open>urllib3.util.Retry\<close> object is the keyword arguments the source builds it
  with; \<open>None\<close> is Python's \<^verbatim>\<open>None\<close>.
\<close>

record Retry =
  total :: "int option"
  connect :: "int option"
  read :: "int option"
  redirect :: "int option"
  status :: "int option"
  status_forcelist :: "int list"
  backoff_factor :: real

definition TRANSIENT_FAILURE_RESPONSE_CODES :: "int list" where
  "TRANSIENT_FAILURE_RESPONSE_CODES = [408, 429, 500, 502, 503, 504]"

text \<open>The Retry object that \<^verbatim>\<open>_get_http_response_with_retries\<close> builds.\<close>

definition default_retry :: "int \<Rightarrow> real \<Rightarrow> int list \<Rightarrow> Retry" where
  "default_retry max_retries backoff_factor' retry_codes =
     \<lparr>total = Some max_retries, connect = Some max_retries, read = Some max_retries,
      redirect = Some max_retries, status = Some max_retries,
      status_forcelist = retry_codes, backoff_factor = backoff_factor'\<rparr>"

text \<open>The Retry object that \<^verbatim>\<open>cloud_storage_http_request\<close> builds.\<close>

definition cloud_storage_retry :: "int \<Rightarrow> Retry" where
  "cloud_storage_retry retry_attempts' =
     \<lparr>total = None, connect = Some 0, read = Some 1, redirect = Some 3,
      status = Some retry_attempts', status_forcelist = TRANSIENT_FAILURE_RESPONSE_CODES,
      backoff_factor = 1\<rparr>"

text \<open>The \<^verbatim>\<open>verify\<close> argument of requests: a bool, or the path of a CA bundle.\<close>

datatype verify_mode = VerifyBool bool | VerifyPath string

text \<open>
  A \<^verbatim>\<open>**kwargs\<close> dictionary, by the keys this file reads or sets; \<open>None\<close> is an
  absent key, and \<open>method_kw\<close> is the key \<^verbatim>\<open>method\<close>. \<open>request_kwargs\<close> adds the
  keys that \<^verbatim>\<open>http_request\<close> itself passes to \<^verbatim>\<open>_get_http_response_with_retries\<close>.
\<close>

record kwargs =
  method_kw :: "string option"
  params :: "json option"
  json :: "json option"
  data :: "string option"
  cert :: "string option"
  retry_attempts :: "int option"

record request_kwargs = kwargs +
  url :: "string option"
  headers :: "(string \<times> string) list option"
  verify :: "verify_mode option"
  timeout :: "real option"

definition no_kwargs :: kwargs where
  "no_kwargs = \<lparr>method_kw = None, params = None, json = None, data = None, cert = None,
                 retry_attempts = None\<rparr>"

text \<open>
  One call of a \<^verbatim>\<open>requests.Session\<close>: the retry policy of the adapter mounted on it,
  the method, the URL, and the keyword arguments passed on.
\<close>

record http_call =
  call_retry :: Retry
  call_method :: string
  call_url :: string
  call_kwargs :: request_kwargs

text \<open>
  The network is explicit state: the list of the calls made so far, oldest first. What
  the session does with a call, retries included, is the parameter \<open>srv\<close>: given the
  earlier calls and this one, the response it returns or the exception it raises.
\<close>

type_synonym session = "http_call list \<Rightarrow> http_call \<Rightarrow> exn + response"

definition Session_request ::
  "session \<Rightarrow> http_call \<Rightarrow> http_call list \<Rightarrow> (exn + response) \<times> http_call list" where
  "Session_request srv c sent = (srv sent c, sent @ [c])"

subsection \<open>The retrying transport\<close>

text \<open>
  \<^verbatim>\<open>_get_http_response_with_retries\<close>: the two assertions, the Retry object, and the
  session's request with \<^verbatim>\<open>method\<close> and \<^verbatim>\<open>url\<close> popped from the keyword arguments.
\<close>

definition get_http_response_with_retries ::
  "session \<Rightarrow> int \<Rightarrow> real \<Rightarrow> int list \<Rightarrow> request_kwargs \<Rightarrow> http_call list
     \<Rightarrow> (exn + response) \<times> http_call list" where
  "get_http_response_with_retries srv max_retries backoff_factor' retry_codes kwargs sent =
     (if \<not> (0 \<le> max_retries \<and> max_retries < 10) then (Inl AssertionError, sent)
      else if \<not> (0 \<le> backoff_factor' \<and> backoff_factor' < 120) then (Inl AssertionError, sent)
      else
        let retry = default_retry max_retries backoff_factor' retry_codes
        in (case method_kw kwargs of
              None \<Rightarrow> (Inl (KeyError ''method''), sent)
            | Some m \<Rightarrow>
                (case url kwargs of
                   None \<Rightarrow> (Inl (KeyError ''url''), sent)
                 | Some u \<Rightarrow>
                     Session_request srv
                       \<lparr>call_retry = retry, call_method = m, call_url = u,
                        call_kwargs = kwargs\<lparr>method_kw := None, url := None\<rparr>\<rparr> sent)))"

subsection \<open>Requests with credentials\<close>

text \<open>\<^verbatim>\<open>base64.standard_b64encode\<close>, on a byte string.\<close>

definition b64_char :: "nat \<Rightarrow> char" where
  "b64_char n =
     ''ABCDEFGHIJKLMNOPQRSTUVWXYZabcdefghijklmnopqrstuvwxyz0123456789+/'' ! (n mod 64)"

fun b64_bytes :: "nat list \<Rightarrow> string" where
  "b64_bytes [] = []"
| "b64_bytes [a] = [b64_char (a div 4), b64_char ((a mod 4) * 16), CHR ''='', CHR ''='']"
| "b64_bytes [a, b] =
     [b64_char (a div 4), b64_char ((a mod 4) * 16 + b div 16), b64_char ((b mod 16) * 4),
      CHR ''='']"
| "b64_bytes (a # b # c # rest) =
     [b64_char (a div 4), b64_char ((a mod 4) * 16 + b div 16),
      b64_char ((b mod 16) * 4 + c div 64), b64_char (c mod 64)] @ b64_bytes rest"

definition standard_b64encode :: "string \<Rightarrow> string" where
  "standard_b64encode s = b64_bytes (map of_char s)"

text \<open>\<^verbatim>\<open>"%s" % x\<close> for an optional string: None prints as \<^verbatim>\<open>None\<close>.\<close>

fun fmt_s :: "string option \<Rightarrow> string" where
  "fmt_s None = ''None''"
| "fmt_s (Some s) = s"

text \<open>
  A dict of strings, as the list of its items in insertion order: \<^verbatim>\<open>d[k] = v\<close>,
  \<^verbatim>\<open>{**a, **b}\<close> and \<^verbatim>\<open>d.get(k)\<close>.
\<close>

fun dict_set :: "(string \<times> string) list \<Rightarrow> string \<Rightarrow> string \<Rightarrow> (string \<times> string) list" where
  "dict_set [] k v = [(k, v)]"
| "dict_set ((k', v') # d) k v =
     (if k' = k then (k, v) # d else (k', v') # dict_set d k v)"

definition dict_merge ::
  "(string \<times> string) list \<Rightarrow> (string \<times> string) list \<Rightarrow> (string \<times> string) list" where
  "dict_merge a b = fold (\<lambda>(k, v) d. dict_set d k v) b a"

definition dict_get :: "(string \<times> string) list \<Rightarrow> string \<Rightarrow> string option" where
  "dict_get d k = map_of d k"

text \<open>
  Modelled from the spec: \<^verbatim>\<open>strip_suffix\<close> of \<^verbatim>\<open>mlflow.utils.string_utils\<close>, which is
  not among the sources. The spec has the host used "with any trailing slash stripped":
  the suffix is removed once when the string ends with it.
\<close>

definition strip_suffix :: "string \<Rightarrow> string \<Rightarrow> string" where
  "strip_suffix original suffix =
     (if endswith original suffix \<and> suffix \<noteq> []
      then take (length original - length suffix) original else original)"

text \<open>
  What \<^verbatim>\<open>http_request\<close> takes from outside this file: \<^verbatim>\<open>mlflow.__version__\<close>, the
  headers \<^verbatim>\<open>resolve_request_headers()\<close> returns, and the session.
\<close>

record env =
  version :: string
  resolve_request_headers :: "(string \<times> string) list"
  http_session :: session

definition DEFAULT_HEADERS :: "string \<Rightarrow> (string \<times> string) list" where
  "DEFAULT_HEADERS v = [(''User-Agent'', ''mlflow-python-client/'' @ v)]"

text \<open>The \<^verbatim>\<open>auth_str\<close> of \<^verbatim>\<open>http_request\<close>: its first \<^verbatim>\<open>if\<close>/\<^verbatim>\<open>elif\<close>.\<close>

definition auth_str :: "MlflowHostCreds \<Rightarrow> string option" where
  "auth_str host_creds =
     (if truthy (username host_creds) \<and> truthy (password host_creds) then
        Some (''Basic '' @ standard_b64encode
                (fmt_s (username host_creds) @ '':'' @ fmt_s (password host_creds)))
      else if truthy (token host_creds) then
        Some (''Bearer '' @ fmt_s (token host_creds))
      else None)"

text \<open>The headers of \<^verbatim>\<open>http_request\<close>: the defaults, the resolved ones, then the
  Authorization header when \<^verbatim>\<open>auth_str\<close> is truthy.\<close>

definition request_headers :: "env \<Rightarrow> MlflowHostCreds \<Rightarrow> (string \<times> string) list" where
  "request_headers e host_creds =
     (let headers = dict_merge (DEFAULT_HEADERS (version e)) (resolve_request_headers e)
      in (case auth_str host_creds of
            None \<Rightarrow> headers
          | Some a \<Rightarrow> if a = [] then headers else dict_set headers ''Authorization'' a))"

definition request_url :: "MlflowHostCreds \<Rightarrow> string \<Rightarrow> string" where
  "request_url host_creds endpoint = strip_suffix (host host_creds) ''/'' @ endpoint"

text \<open>
  The keyword arguments that \<^verbatim>\<open>http_request\<close> passes to the transport: the caller's,
  with \<^verbatim>\<open>cert\<close> set when the credentials have a client certificate, and \<^verbatim>\<open>url\<close>,
  \<^verbatim>\<open>headers\<close>, \<^verbatim>\<open>verify\<close> and \<^verbatim>\<open>timeout\<close>.
\<close>

definition transport_kwargs ::
  "env \<Rightarrow> MlflowHostCreds \<Rightarrow> string \<Rightarrow> real \<Rightarrow> kwargs \<Rightarrow> request_kwargs" where
  "transport_kwargs e host_creds endpoint timeout' kwargs =
     (let headers' = request_headers e host_creds;
          verify' = (case server_cert_path host_creds of
                       None \<Rightarrow> VerifyBool (\<not> ignore_tls_verification host_creds)
                     | Some path \<Rightarrow> VerifyPath path);
          kwargs' = (case client_cert_path host_creds of
                       None \<Rightarrow> kwargs
                     | Some path \<Rightarrow> kwargs\<lparr>cert := Some path\<rparr>);
          url' = request_url host_creds endpoint
      in kwargs.extend kwargs'
           (request_kwargs.fields (Some url') (Some headers') (Some verify') (Some timeout')))"

text \<open>
  \<^verbatim>\<open>http_request\<close>. Its \<^verbatim>\<open>try\<close> holds the call of the transport; the handler catches
  every \<^verbatim>\<open>Exception\<close> and raises an \<^verbatim>\<open>MlflowException\<close> made of the URL and the
  exception's \<^verbatim>\<open>str\<close>.
\<close>

definition http_request ::
  "env \<Rightarrow> MlflowHostCreds \<Rightarrow> string \<Rightarrow> int \<Rightarrow> real \<Rightarrow> int list \<Rightarrow> real \<Rightarrow> kwargs
     \<Rightarrow> http_call list \<Rightarrow> (exn + response) \<times> http_call list" where
  "http_request e host_creds endpoint max_retries backoff_factor' retry_codes timeout' kwargs sent =
     (case get_http_response_with_retries (http_session e) max_retries backoff_factor'
             retry_codes (transport_kwargs e host_creds endpoint timeout' kwargs) sent of
        (Inr response, sent') \<Rightarrow> (Inr response, sent')
      | (Inl ex, sent') \<Rightarrow>
          (Inl (MlflowException
                  (''API request to '' @ request_url host_creds endpoint
                     @ '' failed with exception '' @ str_exn ex)
                  INTERNAL_ERROR),
           sent'))"

text \<open>\<^verbatim>\<open>http_request\<close> with the defaults of its signature.\<close>

definition http_request_defaults ::
  "env \<Rightarrow> MlflowHostCreds \<Rightarrow> string \<Rightarrow> kwargs \<Rightarrow> http_call list
     \<Rightarrow> (exn + response) \<times> http_call list" where
  "http_request_defaults e host_creds endpoint kwargs sent =
     http_request e host_creds endpoint 3 5 [429, 500, 503] 10 kwargs sent"

subsection \<open>Calling an endpoint\<close>

text \<open>
  \<^verbatim>\<open>call_endpoint\<close>. \<^verbatim>\<open>parse_dict\<close> (of \<^verbatim>\<open>mlflow.utils.proto_json_utils\<close>) is a
  parameter: it fills the message \<^verbatim>\<open>response_proto\<close> from the parsed body, or raises.
  A falsy \<^verbatim>\<open>json_body\<close> (None, or the empty string) is passed on as it is. An
  exception of \<^verbatim>\<open>json.loads\<close>, \<^verbatim>\<open>http_request\<close>, \<^verbatim>\<open>verify_rest_response\<close> or
  \<^verbatim>\<open>parse_dict\<close> leaves the function as it is.
\<close>

definition call_endpoint ::
  "env \<Rightarrow> (string \<Rightarrow> json option) \<Rightarrow> (json \<Rightarrow> 'p \<Rightarrow> exn + 'p) \<Rightarrow> MlflowHostCreds \<Rightarrow> string
     \<Rightarrow> string \<Rightarrow> string option \<Rightarrow> 'p \<Rightarrow> http_call list \<Rightarrow> (exn + 'p) \<times> http_call list" where
  "call_endpoint e loads parse_dict host_creds endpoint method' json_body response_proto sent =
     (case (case json_body of
              None \<Rightarrow> Inr JNull
            | Some s \<Rightarrow>
                if s = [] then Inr (JStr s)
                else (case loads s of
                        None \<Rightarrow> Inl JSONDecodeError
                      | Some j \<Rightarrow> Inr j)) of
        Inl ex \<Rightarrow> (Inl ex, sent)
      | Inr json_body' \<Rightarrow>
          (case (if method' = ''GET''
                 then http_request_defaults e host_creds endpoint
                        (no_kwargs\<lparr>method_kw := Some method', params := Some json_body'\<rparr>) sent
                 else http_request_defaults e host_creds endpoint
                        (no_kwargs\<lparr>method_kw := Some method', json := Some json_body'\<rparr>) sent) of
             (Inl ex, sent') \<Rightarrow> (Inl ex, sent')
           | (Inr response, sent') \<Rightarrow>
               (case verify_rest_response loads response endpoint of
                  Inl ex \<Rightarrow> (Inl ex, sent')
                | Inr response' \<Rightarrow>
                    (case loads (resp_text response') of
                       None \<Rightarrow> (Inl JSONDecodeError, sent')
                     | Some js_dict \<Rightarrow> (parse_dict js_dict response_proto, sent')))))"

subsection \<open>Cloud storage transfers\<close>


subsection \<open>The retry loop of the session\<close>

text \<open>
  The loop that retries is not code of this repository: it is urllib3's (version 1.26,
  \<^verbatim>\<open>Retry.is_retry\<close>, \<^verbatim>\<open>Retry.increment\<close>, \<^verbatim>\<open>Retry.is_exhausted\<close> and
  \<^verbatim>\<open>Retry.get_backoff_time\<close> of \<^verbatim>\<open>urllib3/util/retry.py\<close>, driven by
  \<^verbatim>\<open>HTTPConnectionPool.urlopen\<close>), which the \<^verbatim>\<open>HTTPAdapter\<close> of requests calls with the
  mounted Retry object. This subsection gives that loop, for attempts that end in a
  connection error, a read error, or a response that carries no \<^verbatim>\<open>Retry-After\<close> and no
  redirect, so that what happens between the attempts of one call can be stated. The
  definitions above do not depend on it: they take the session as a parameter.
  The arguments that the source does not pass to \<^verbatim>\<open>Retry\<close> have urllib3's defaults.
\<close>

definition upper_char :: "char \<Rightarrow> char" where
  "upper_char c =
     (if 97 \<le> (of_char c :: nat) \<and> (of_char c :: nat) \<le> 122
      then char_of ((of_char c :: nat) - 32) else c)"

definition upper :: "string \<Rightarrow> string" where
  "upper s = map upper_char s"

text \<open>\<^verbatim>\<open>Retry.DEFAULT_ALLOWED_METHODS\<close>, \<^verbatim>\<open>Retry.DEFAULT_BACKOFF_MAX\<close>, and the default of
  the argument \<^verbatim>\<open>raise_on_status\<close>.\<close>

definition DEFAULT_ALLOWED_METHODS :: "string list" where
  "DEFAULT_ALLOWED_METHODS = [''HEAD'', ''GET'', ''PUT'', ''DELETE'', ''OPTIONS'', ''TRACE'']"

definition DEFAULT_BACKOFF_MAX :: real where
  "DEFAULT_BACKOFF_MAX = 120"

definition raise_on_status :: bool where
  "raise_on_status = True"

text \<open>
  \<^verbatim>\<open>Retry.get_backoff_time\<close>, from the number of consecutive failed attempts in the
  history: nothing before the first retry, then the factor times a power of two, at most
  \<^verbatim>\<open>DEFAULT_BACKOFF_MAX\<close>.
\<close>

definition get_backoff_time :: "Retry \<Rightarrow> nat \<Rightarrow> real" where
  "get_backoff_time r consecutive_errors_len =
     (if consecutive_errors_len \<le> 1 then 0
      else min DEFAULT_BACKOFF_MAX (backoff_factor r * 2 ^ (consecutive_errors_len - 1)))"

text \<open>\<^verbatim>\<open>Retry._is_method_retryable\<close> and \<^verbatim>\<open>Retry.is_retry\<close> (no \<^verbatim>\<open>Retry-After\<close> header).\<close>

definition is_method_retryable :: "string \<Rightarrow> bool" where
  "is_method_retryable m = (upper m \<in> set DEFAULT_ALLOWED_METHODS)"

definition is_retry :: "Retry \<Rightarrow> string \<Rightarrow> int \<Rightarrow> bool" where
  "is_retry r m status_code' =
     (is_method_retryable m \<and> status_code' \<in> set (status_forcelist r))"

text \<open>
  \<^verbatim>\<open>Retry.is_exhausted\<close>: among the counters that are neither None nor 0, the least is
  negative.
\<close>

definition is_exhausted :: "Retry \<Rightarrow> bool" where
  "is_exhausted r =
     (let retry_counts = [n. Some n \<leftarrow> [total r, connect r, read r, redirect r, status r],
                             n \<noteq> 0]
      in retry_counts \<noteq> [] \<and> (\<exists>n \<in> set retry_counts. n < 0))"

text \<open>A counter after \<^verbatim>\<open>Retry.increment\<close>: one less, None staying None.\<close>

fun decremented :: "int option \<Rightarrow> int option" where
  "decremented None = None"
| "decremented (Some n) = Some (n - 1)"

text \<open>
  How one attempt ends: no connection (\<^verbatim>\<open>ConnectTimeoutError\<close>, \<^verbatim>\<open>NewConnectionError\<close>),
  a failure while reading (\<^verbatim>\<open>ReadTimeoutError\<close>, \<^verbatim>\<open>ProtocolError\<close>), or a response. And
  why a call raises: the connection or the read failed for good, or the retries on a
  status code ran out (\<^verbatim>\<open>MaxRetryError\<close> with a \<^verbatim>\<open>ResponseError\<close>, which requests raises
  as \<^verbatim>\<open>RetryError\<close>). \<open>Unfinished\<close> marks a loop cut off by the bound on attempts.
\<close>

datatype attempt = ConnectError | ReadError | Answered response

datatype failure = ConnectFailed | ReadFailed | TooManyErrorResponses int | Unfinished

text \<open>
  \<^verbatim>\<open>urlopen\<close> with its retries: \<open>r\<close> is the Retry object, \<open>n\<close> the length of its history,
  \<open>net i\<close> how the \<open>i\<close>-th attempt ends, \<open>slept\<close> the backoff times so far (0 for no
  sleep). A failed attempt decrements the total and the counter of its kind; the call
  raises when a counter has gone below 0 and is retried after the backoff otherwise. A
  read error is raised at once for a method outside the allowed ones, and a response is
  returned at once unless \<^verbatim>\<open>is_retry\<close> holds. The first argument bounds the number
  of attempts.
\<close>

fun urlopen ::
  "nat \<Rightarrow> Retry \<Rightarrow> nat \<Rightarrow> string \<Rightarrow> (nat \<Rightarrow> attempt) \<Rightarrow> nat \<Rightarrow> real list
     \<Rightarrow> (failure + response) \<times> real list" where
  "urlopen 0 r n m net i slept = (Inl Unfinished, slept)"
| "urlopen (Suc bound) r n m net i slept =
     (case net i of
        ConnectError \<Rightarrow>
          (let r' = r\<lparr>total := decremented (total r), connect := decremented (connect r)\<rparr>
           in if is_exhausted r' then (Inl ConnectFailed, slept)
              else urlopen bound r' (Suc n) m net (Suc i)
                     (slept @ [get_backoff_time r' (Suc n)]))
      | ReadError \<Rightarrow>
          (if \<not> is_method_retryable m then (Inl ReadFailed, slept)
           else
             let r' = r\<lparr>total := decremented (total r), read := decremented (read r)\<rparr>
             in if is_exhausted r' then (Inl ReadFailed, slept)
                else urlopen bound r' (Suc n) m net (Suc i)
                       (slept @ [get_backoff_time r' (Suc n)]))
      | Answered response \<Rightarrow>
          (if is_retry r m (status_code response) then
             let r' = r\<lparr>total := decremented (total r), status := decremented (status r)\<rparr>
             in if is_exhausted r' then
                  (if raise_on_status
                   then (Inl (TooManyErrorResponses (status_code response)), slept)
                   else (Inr response, slept))
                else urlopen bound r' (Suc n) m net (Suc i)
                       (slept @ [get_backoff_time r' (Suc n)])
           else (Inr response, slept)))"

text \<open>
  The number of attempts that a call is given: one, and one more for every retry that a
  counter of the Retry object allows. Under the Retry objects that this file builds the
  loop ends before that (lemma \<open>urlopen_within_bound\<close> below).
\<close>

definition left :: "int option \<Rightarrow> nat" where
  "left c = (case c of None \<Rightarrow> 0 | Some n \<Rightarrow> nat n)"

definition attempts_bound :: "Retry \<Rightarrow> nat" where
  "attempts_bound r =
     Suc (left (total r) + left (connect r) + left (read r) + left (status r))"


subsection \<open>Sample inputs\<close>

text \<open>Credentials with a username, a password and a token, on a host with a trailing slash.\<close>

definition creds_example :: MlflowHostCreds where
  "creds_example =
     \<lparr>host = ''http://localhost:5000/'', username = Some ''u'', password = Some ''p'',
      token = Some ''t'', ignore_tls_verification = False, client_cert_path = None,
      server_cert_path = None\<rparr>"

text \<open>A session that raises on every call, and one that answers every call with \<open>r\<close>.\<close>

definition refusing :: session where
  "refusing sent c = Inl (RequestException ''Connection refused'')"

definition answering :: "response \<Rightarrow> session" where
  "answering r sent c = Inr r"

definition env_example :: "session \<Rightarrow> env" where
  "env_example s = \<lparr>version = ''1.0'', resolve_request_headers = [], http_session = s\<rparr>"

text \<open>\<^verbatim>\<open>json.loads\<close> on two documents; every other string is taken not to parse.\<close>

definition loads_example :: "string \<Rightarrow> json option" where
  "loads_example s =
     (if s = ''{\"error_code\":\"RESOURCE_DOES_NOT_EXIST\",\"message\":\"x\"}''
      then Some (JObj [(''error_code'', JStr ''RESOURCE_DOES_NOT_EXIST''),
                       (''message'', JStr ''x'')])
      else if s = ''{\"run_id\":\"7\"}'' then Some (JObj [(''run_id'', JStr ''7'')])
      else None)"


text \<open>A network that answers every attempt with 503, and one that never connects.\<close>

definition always_503 :: "nat \<Rightarrow> attempt" where
  "always_503 i = Answered \<lparr>status_code = 503, resp_text = ''busy''\<rparr>"



subsection \<open>Construction of credentials\<close>

text \<open>
  C5. Constructing a MlflowHostCreds succeeds exactly when the host is non-empty and it
  is not the case that ignore\_tls\_verification is true while server\_cert\_path is set.
  On success the seven fields hold the arguments. Every violation raises, from the
  constructor, an MlflowException with error code INVALID\_PARAMETER\_VALUE (the
  configuration error of this file), and the failing instance is left as it was: no field
  is stored on it.
\<close>

theorem MlflowHostCreds_init_succeeds_iff:
  "(fst (MlflowHostCreds_init self h u p t i c s) = None)
     = (h \<noteq> [] \<and> \<not> (i \<and> s \<noteq> None))
   \<and> (if h \<noteq> [] \<and> \<not> (i \<and> s \<noteq> None)
      then snd (MlflowHostCreds_init self h u p t i c s)
             = Some \<lparr>host = h, username = u, password = p, token = t,
                      ignore_tls_verification = i, client_cert_path = c,
                      server_cert_path = s\<rparr>
      else (\<exists>m. fst (MlflowHostCreds_init self h u p t i c s)
                   = Some (MlflowException m INVALID_PARAMETER_VALUE))
           \<and> snd (MlflowHostCreds_init self h u p t i c s) = self)"
  by (simp add: MlflowHostCreds_init_def)

text \<open>
  The two failing constructions that the specification names, on a fresh instance: an
  empty host, and ignore\_tls\_verification with a server certificate path.
\<close>

theorem MlflowHostCreds_init_witness:
  "fst (MlflowHostCreds_init None [] None None None False None None)
     = Some (MlflowException ''host is a required parameter for MlflowHostCreds''
               INVALID_PARAMETER_VALUE)
   \<and> snd (MlflowHostCreds_init None [] None None None False None None) = None
   \<and> fst (MlflowHostCreds_init None ''http://h'' None None None True None (Some ''/x''))
       \<noteq> None
   \<and> snd (MlflowHostCreds_init None ''http://h'' None None None True None (Some ''/x''))
       = None
   \<and> fst (MlflowHostCreds_init None ''http://h'' None None None True None None) = None"
  using MlflowHostCreds_init_succeeds_iff [of None "[]" None None None False None None]
        MlflowHostCreds_init_succeeds_iff
          [of None "''http://h''" None None None True None "Some ''/x''"]
        MlflowHostCreds_init_succeeds_iff [of None "''http://h''" None None None True None None]
  by (simp add: MlflowHostCreds_init_def)

subsection \<open>Verification of responses\<close>



text \<open>
  C7. For every response with status code 200: if the endpoint starts with the prefix
  /api/2.0 and the body is not valid JSON, verification raises an MlflowException saying
  that the body was not valid JSON; if the endpoint does not start with that prefix,
  verification returns the response unchanged, whatever its body.
\<close>

theorem verify_rest_response_200:
  "status_code resp = 200 \<Longrightarrow>
     (startswith endpoint REST_API_PATH_PREFIX \<and> loads (resp_text resp) = None
        \<longrightarrow> verify_rest_response loads resp endpoint
              = Inl (MlflowException
                       (''API request to endpoint was successful but the response body ''
                          @ ''was not in a valid JSON format. Response body: ''
                          @ [CHR 0x27] @ resp_text resp @ [CHR 0x27])
                       INTERNAL_ERROR))
     \<and> (\<not> startswith endpoint REST_API_PATH_PREFIX
        \<longrightarrow> verify_rest_response loads resp endpoint = Inr resp)"
  by (simp add: verify_rest_response_def can_parse_as_json_def)

text \<open>
  The specification's example: the body \<^verbatim>\<open>not json\<close> with status 200, on a path under
  the prefix and on a download path.
\<close>

theorem verify_rest_response_200_witness:
  "verify_rest_response (\<lambda>s. None) \<lparr>status_code = 200, resp_text = ''not json''\<rparr>
       ''/api/2.0/mlflow/runs/get''
     = Inl (MlflowException
              (''API request to endpoint was successful but the response body ''
                 @ ''was not in a valid JSON format. Response body: ''
                 @ [CHR 0x27] @ ''not json'' @ [CHR 0x27])
              INTERNAL_ERROR)
   \<and> verify_rest_response (\<lambda>s. None) \<lparr>status_code = 200, resp_text = ''not json''\<rparr>
       ''/dbfs/download''
     = Inr \<lparr>status_code = 200, resp_text = ''not json''\<rparr>"
  using verify_rest_response_200
          [of "\<lparr>status_code = 200, resp_text = ''not json''\<rparr>" "''/api/2.0/mlflow/runs/get''"
              "\<lambda>s. None"]
        verify_rest_response_200
          [of "\<lparr>status_code = 200, resp_text = ''not json''\<rparr>" "''/dbfs/download''"
              "\<lambda>s. None"]
  by (simp add: startswith_def REST_API_PATH_PREFIX_def)


subsection \<open>The bounds of the retrying transport\<close>

text \<open>
  C8. For every integer max\_retries and every backoff\_factor, a call of the retrying
  transport with max\_retries in [0, 10) and backoff\_factor in [0, 120) passes both
  assertions and goes on to the session's request, under a Retry built from these
  values. With a value outside the bounds the call fails with an AssertionError (this
  function's form of a configuration error) whatever the session would do, and the list
  of calls made is unchanged: the failure comes before any network activity and is not an
  outcome of retrying.
\<close>

theorem get_http_response_with_retries_bounds:
  "(0 \<le> max_retries \<and> max_retries < 10 \<and> 0 \<le> bf \<and> bf < 120 \<longrightarrow>
      (\<forall>m u. method_kw kw = Some m \<and> url kw = Some u \<longrightarrow>
         get_http_response_with_retries srv max_retries bf codes kw sent =
           Session_request srv
             \<lparr>call_retry = \<lparr>total = Some max_retries, connect = Some max_retries,
                             read = Some max_retries, redirect = Some max_retries,
                             status = Some max_retries, status_forcelist = codes,
                             backoff_factor = bf\<rparr>,
              call_method = m, call_url = u,
              call_kwargs = kw\<lparr>method_kw := None, url := None\<rparr>\<rparr> sent))
   \<and> (\<not> (0 \<le> max_retries \<and> max_retries < 10 \<and> 0 \<le> bf \<and> bf < 120) \<longrightarrow>
        get_http_response_with_retries srv max_retries bf codes kw sent
          = (Inl AssertionError, sent))"
  by (auto simp add: get_http_response_with_retries_def default_retry_def)

text \<open>
  At the bounds: 9 retries with a factor of 119.5 reach the session, which here refuses
  the connection; 10 retries, a factor of 120 and a negative number of retries fail
  with no call made.
\<close>

theorem get_http_response_with_retries_bounds_witness:
  "get_http_response_with_retries refusing 9 119.5 [429, 500, 503]
       (kwargs.extend (no_kwargs\<lparr>method_kw := Some ''GET''\<rparr>)
          (request_kwargs.fields (Some ''http://h/x'') None None None)) []
     = (Inl (RequestException ''Connection refused''),
        [\<lparr>call_retry = \<lparr>total = Some 9, connect = Some 9, read = Some 9,
                         redirect = Some 9, status = Some 9,
                         status_forcelist = [429, 500, 503], backoff_factor = 119.5\<rparr>,
          call_method = ''GET'', call_url = ''http://h/x'',
          call_kwargs = kwargs.extend no_kwargs
                          (request_kwargs.fields None None None None)\<rparr>])
   \<and> get_http_response_with_retries refusing 10 5 [429, 500, 503]
       (kwargs.extend (no_kwargs\<lparr>method_kw := Some ''GET''\<rparr>)
          (request_kwargs.fields (Some ''http://h/x'') None None None)) []
     = (Inl AssertionError, [])
   \<and> get_http_response_with_retries refusing 3 120 [429, 500, 503]
       (kwargs.extend (no_kwargs\<lparr>method_kw := Some ''GET''\<rparr>)
          (request_kwargs.fields (Some ''http://h/x'') None None None)) []
     = (Inl AssertionError, [])
   \<and> get_http_response_with_retries refusing (- 1) 5 [429, 500, 503]
       (kwargs.extend (no_kwargs\<lparr>method_kw := Some ''GET''\<rparr>)
          (request_kwargs.fields (Some ''http://h/x'') None None None)) []
     = (Inl AssertionError, [])"
  using get_http_response_with_retries_bounds
          [of 9 "119.5"
              "kwargs.extend (no_kwargs\<lparr>method_kw := Some ''GET''\<rparr>)
                 (request_kwargs.fields (Some ''http://h/x'') None None None)"
              refusing "[429, 500, 503]" "[]"]
        get_http_response_with_retries_bounds
          [of 10 5
              "kwargs.extend (no_kwargs\<lparr>method_kw := Some ''GET''\<rparr>)
                 (request_kwargs.fields (Some ''http://h/x'') None None None)"
              refusing "[429, 500, 503]" "[]"]
        get_http_response_with_retries_bounds
          [of 3 120
              "kwargs.extend (no_kwargs\<lparr>method_kw := Some ''GET''\<rparr>)
                 (request_kwargs.fields (Some ''http://h/x'') None None None)"
              refusing "[429, 500, 503]" "[]"]
        get_http_response_with_retries_bounds
          [of "- 1" 5
              "kwargs.extend (no_kwargs\<lparr>method_kw := Some ''GET''\<rparr>)
                 (request_kwargs.fields (Some ''http://h/x'') None None None)"
              refusing "[429, 500, 503]" "[]"]
  by (simp add: Session_request_def refusing_def no_kwargs_def kwargs.defs
        request_kwargs.defs)

subsection \<open>Exceptions of the transport inside http\_request\<close>

lemma transport_kwargs_method [simp]:
  "method_kw (transport_kwargs e hc ep t kw) = method_kw kw"
  by (simp add: transport_kwargs_def kwargs.defs request_kwargs.defs Let_def
      split: option.splits)

lemma transport_kwargs_url [simp]:
  "url (transport_kwargs e hc ep t kw) = Some (request_url hc ep)"
  by (simp add: transport_kwargs_def kwargs.defs request_kwargs.defs Let_def
      split: option.splits)

lemma transport_kwargs_payload:
  "params (transport_kwargs e hc ep t kw) = params kw"
  "json (transport_kwargs e hc ep t kw) = json kw"
  "data (transport_kwargs e hc ep t kw) = data kw"
  by (simp_all add: transport_kwargs_def kwargs.defs request_kwargs.defs Let_def
      split: option.splits)




subsection \<open>The payload of call\_endpoint\<close>

text \<open>The one call that http\_request makes with the defaults of its signature.\<close>

lemma http_request_defaults_call:
  "method_kw kw = Some m \<Longrightarrow>
   http_request_defaults e hc ep kw sent =
     (let c = \<lparr>call_retry = \<lparr>total = Some 3, connect = Some 3, read = Some 3,
                              redirect = Some 3, status = Some 3,
                              status_forcelist = [429, 500, 503], backoff_factor = 5\<rparr>,
                call_method = m, call_url = request_url hc ep,
                call_kwargs = (transport_kwargs e hc ep 10 kw)
                                \<lparr>method_kw := None, url := None\<rparr>\<rparr>
      in (case http_session e sent c of
            Inr r \<Rightarrow> Inr r
          | Inl ex \<Rightarrow> Inl (MlflowException
                      (''API request to '' @ request_url hc ep @ '' failed with exception ''
                         @ str_exn ex) INTERNAL_ERROR),
          sent @ [c]))"
  by (simp add: http_request_defaults_def http_request_def get_http_response_with_retries_def
      default_retry_def Session_request_def Let_def split: sum.splits)

text \<open>
  C9. For every call of call\_endpoint with a non-empty payload \<open>s\<close> that parses to \<open>j\<close>,
  exactly one request is made, to the URL of the endpoint with the given method. When the
  method is GET, \<open>j\<close> goes as the query parameters (\<^verbatim>\<open>params\<close>) and there is no body:
  neither \<^verbatim>\<open>json\<close> nor \<^verbatim>\<open>data\<close> is passed. For every other method, \<open>j\<close> goes as the
  JSON body (\<^verbatim>\<open>json\<close>) and no \<^verbatim>\<open>params\<close> are passed. On success (the session returns a
  200 response whose body parses to \<open>js\<close>), the result is what parse\_dict makes of
  \<open>js\<close> and the caller's response message.
\<close>

theorem call_endpoint_payload:
  assumes "s \<noteq> []" and "loads s = Some j"
  shows "\<exists>c. snd (call_endpoint e loads pd hc ep m (Some s) proto sent) = sent @ [c]
           \<and> call_method c = m \<and> call_url c = request_url hc ep
           \<and> data (call_kwargs c) = None
           \<and> (if m = ''GET''
              then params (call_kwargs c) = Some j \<and> json (call_kwargs c) = None
              else json (call_kwargs c) = Some j \<and> params (call_kwargs c) = None)
           \<and> (\<forall>r js. http_session e sent c = Inr r \<and> status_code r = 200
                     \<and> loads (resp_text r) = Some js
                 \<longrightarrow> fst (call_endpoint e loads pd hc ep m (Some s) proto sent)
                       = pd js proto)"
proof -
  define kw where
    "kw = (if m = ''GET'' then no_kwargs\<lparr>method_kw := Some m, params := Some j\<rparr>
           else no_kwargs\<lparr>method_kw := Some m, json := Some j\<rparr>)"
  define c where
    "c = \<lparr>call_retry = \<lparr>total = Some 3, connect = Some 3, read = Some 3,
                         redirect = Some 3, status = Some 3,
                         status_forcelist = [429, 500, 503], backoff_factor = 5\<rparr>,
           call_method = m, call_url = request_url hc ep,
           call_kwargs = (transport_kwargs e hc ep 10 kw)\<lparr>method_kw := None, url := None\<rparr>\<rparr>"
  have m: "method_kw kw = Some m"
    by (simp add: kw_def)
  have request: "http_request_defaults e hc ep kw sent =
      (case http_session e sent c of
         Inr r \<Rightarrow> Inr r
       | Inl ex \<Rightarrow> Inl (MlflowException
                   (''API request to '' @ request_url hc ep @ '' failed with exception ''
                      @ str_exn ex) INTERNAL_ERROR),
       sent @ [c])"
    using http_request_defaults_call [OF m, of e hc ep sent] by (simp add: c_def Let_def)
  have body: "call_endpoint e loads pd hc ep m (Some s) proto sent =
      (case http_request_defaults e hc ep kw sent of
         (Inl ex, sent') \<Rightarrow> (Inl ex, sent')
       | (Inr response, sent') \<Rightarrow>
           (case verify_rest_response loads response ep of
              Inl ex \<Rightarrow> (Inl ex, sent')
            | Inr response' \<Rightarrow>
                (case loads (resp_text response') of
                   None \<Rightarrow> (Inl JSONDecodeError, sent')
                 | Some js_dict \<Rightarrow> (pd js_dict proto, sent'))))"
    using assms by (simp add: call_endpoint_def kw_def)
  have sent: "snd (call_endpoint e loads pd hc ep m (Some s) proto sent) = sent @ [c]"
    unfolding body request by (simp split: sum.splits option.splits)
  have fields: "call_method c = m" "call_url c = request_url hc ep"
    "data (call_kwargs c) = None"
    "if m = ''GET''
     then params (call_kwargs c) = Some j \<and> json (call_kwargs c) = None
     else json (call_kwargs c) = Some j \<and> params (call_kwargs c) = None"
    by (simp_all add: c_def kw_def transport_kwargs_payload no_kwargs_def)
  have success: "fst (call_endpoint e loads pd hc ep m (Some s) proto sent) = pd js proto"
    if "http_session e sent c = Inr r" "status_code r = 200" "loads (resp_text r) = Some js"
    for r js
    unfolding body request using that
    by (simp add: verify_rest_response_def can_parse_as_json_def)
  from sent fields success show ?thesis
    by blast
qed

text \<open>
  A GET and a POST with the payload \<^verbatim>\<open>{"run_id":"7"}\<close>, against a session that answers
  200 with the same document; parse\_dict here returns the parsed body.
\<close>

theorem call_endpoint_payload_witness:
  "''{\"run_id\":\"7\"}'' \<noteq> []
   \<and> loads_example ''{\"run_id\":\"7\"}'' = Some (JObj [(''run_id'', JStr ''7'')])
   \<and> (\<exists>c. snd (call_endpoint
                 (env_example (answering \<lparr>status_code = 200, resp_text = ''{\"run_id\":\"7\"}''\<rparr>))
                 loads_example (\<lambda>js p. Inr js) creds_example ''/api/2.0/mlflow/runs/get''
                 ''GET'' (Some ''{\"run_id\":\"7\"}'') JNull []) = [c]
          \<and> params (call_kwargs c) = Some (JObj [(''run_id'', JStr ''7'')])
          \<and> json (call_kwargs c) = None \<and> data (call_kwargs c) = None)
   \<and> fst (call_endpoint
            (env_example (answering \<lparr>status_code = 200, resp_text = ''{\"run_id\":\"7\"}''\<rparr>))
            loads_example (\<lambda>js p. Inr js) creds_example ''/api/2.0/mlflow/runs/get''
            ''GET'' (Some ''{\"run_id\":\"7\"}'') JNull [])
       = Inr (JObj [(''run_id'', JStr ''7'')])
   \<and> (\<exists>c. snd (call_endpoint
                 (env_example (answering \<lparr>status_code = 200, resp_text = ''{\"run_id\":\"7\"}''\<rparr>))
                 loads_example (\<lambda>js p. Inr js) creds_example ''/api/2.0/mlflow/runs/create''
                 ''POST'' (Some ''{\"run_id\":\"7\"}'') JNull []) = [c]
          \<and> json (call_kwargs c) = Some (JObj [(''run_id'', JStr ''7'')])
          \<and> params (call_kwargs c) = None)"
proof -
  let ?doc = "''{\"run_id\":\"7\"}''"
  let ?e = "env_example (answering \<lparr>status_code = 200, resp_text = ?doc\<rparr>)"
  have t: "?doc \<noteq> []"
    by simp
  have l: "loads_example ?doc = Some (JObj [(''run_id'', JStr ''7'')])"
    by (simp add: loads_example_def)
  have a: "http_session ?e sent c = Inr \<lparr>status_code = 200, resp_text = ?doc\<rparr>" for sent c
    by (simp add: env_example_def answering_def)
  have l': "loads_example (resp_text \<lparr>status_code = 200, resp_text = ?doc\<rparr>)
              = Some (JObj [(''run_id'', JStr ''7'')])"
    by (simp add: loads_example_def)
  from call_endpoint_payload
         [where s = ?doc and loads = loads_example
            and j = "JObj [(''run_id'', JStr ''7'')]" and e = ?e and pd = "\<lambda>js p. Inr js"
            and hc = creds_example and ep = "''/api/2.0/mlflow/runs/get''" and m = "''GET''"
            and proto = JNull and sent = "[]", OF t l]
  obtain c where c: "snd (call_endpoint ?e loads_example (\<lambda>js p. Inr js) creds_example
                            ''/api/2.0/mlflow/runs/get'' ''GET'' (Some ?doc) JNull []) = [c]"
      "params (call_kwargs c) = Some (JObj [(''run_id'', JStr ''7'')])"
      "json (call_kwargs c) = None" "data (call_kwargs c) = None"
      "\<forall>r js. http_session ?e [] c = Inr r \<and> status_code r = 200
                \<and> loads_example (resp_text r) = Some js
          \<longrightarrow> fst (call_endpoint ?e loads_example (\<lambda>js p. Inr js) creds_example
                    ''/api/2.0/mlflow/runs/get'' ''GET'' (Some ?doc) JNull []) = Inr js"
    by auto
  from c(5) a [of "[]" c] l'
  have r: "fst (call_endpoint ?e loads_example (\<lambda>js p. Inr js) creds_example
                  ''/api/2.0/mlflow/runs/get'' ''GET'' (Some ?doc) JNull [])
             = Inr (JObj [(''run_id'', JStr ''7'')])"
    by simp
  from call_endpoint_payload
         [where s = ?doc and loads = loads_example
            and j = "JObj [(''run_id'', JStr ''7'')]" and e = ?e and pd = "\<lambda>js p. Inr js"
            and hc = creds_example and ep = "''/api/2.0/mlflow/runs/create''" and m = "''POST''"
            and proto = JNull and sent = "[]", OF t l]
  obtain c' where c': "snd (call_endpoint ?e loads_example (\<lambda>js p. Inr js) creds_example
                            ''/api/2.0/mlflow/runs/create'' ''POST'' (Some ?doc) JNull []) = [c']"
      "json (call_kwargs c') = Some (JObj [(''run_id'', JStr ''7'')])"
      "params (call_kwargs c') = None"
    by auto
  from t l c(1-4) r c' show ?thesis
    by blast
qed

subsection \<open>The Authorization header\<close>

lemma auth_str_basic:
  "truthy (username hc) \<and> truthy (password hc) \<Longrightarrow>
     auth_str hc = Some (''Basic '' @ standard_b64encode
                           (fmt_s (username hc) @ '':'' @ fmt_s (password hc)))"
  by (simp add: auth_str_def)

lemma auth_str_bearer:
  "\<not> (truthy (username hc) \<and> truthy (password hc)) \<Longrightarrow> truthy (token hc) \<Longrightarrow>
     auth_str hc = Some (''Bearer '' @ fmt_s (token hc))"
  by (simp add: auth_str_def)

lemma auth_str_none:
  "\<not> (truthy (username hc) \<and> truthy (password hc)) \<Longrightarrow> \<not> truthy (token hc) \<Longrightarrow>
     auth_str hc = None"
  by (simp add: auth_str_def)

text \<open>
  C2. The claim gives the token precedence when a username and a password are supplied
  too, as the docstring of MlflowHostCreds does ("If provided, user/password
  authentication will be ignored"). The code tests the username and the password first:
  for credentials with username \<^verbatim>\<open>u\<close>, password \<^verbatim>\<open>p\<close> and token \<^verbatim>\<open>t\<close>, the header
  computed is the Basic one (the base64 of \<^verbatim>\<open>u:p\<close>), not \<^verbatim>\<open>Bearer t\<close>, and it is the
  Authorization header of the request sent.
\<close>

theorem auth_str_basic_over_token:
  "auth_str creds_example = Some ''Basic dTpw''
   \<and> auth_str creds_example \<noteq> Some ''Bearer t''
   \<and> map (\<lambda>c. case headers (call_kwargs c) of
                 Some h \<Rightarrow> dict_get h ''Authorization''
               | None \<Rightarrow> None)
        (snd (http_request (env_example refusing) creds_example ''/api/2.0/x'' 3 5
                [429, 500, 503] 10 (no_kwargs\<lparr>method_kw := Some ''GET''\<rparr>) []))
       = [Some ''Basic dTpw'']"
  by (simp add: http_request_def get_http_response_with_retries_def Session_request_def
      transport_kwargs_def request_headers_def auth_str_def creds_example_def
      standard_b64encode_def b64_char_def env_example_def dict_merge_def DEFAULT_HEADERS_def
      dict_get_def kwargs.defs request_kwargs.defs no_kwargs_def refusing_def
      split: prod.splits)

subsection \<open>The retry policy of cloud storage transfers\<close>



subsection \<open>Exhausted retries\<close>


lemma is_exhausted_cases:
  "is_exhausted r \<longleftrightarrow>
     (case total r of Some n \<Rightarrow> n < 0 | None \<Rightarrow> False)
     \<or> (case connect r of Some n \<Rightarrow> n < 0 | None \<Rightarrow> False)
     \<or> (case read r of Some n \<Rightarrow> n < 0 | None \<Rightarrow> False)
     \<or> (case redirect r of Some n \<Rightarrow> n < 0 | None \<Rightarrow> False)
     \<or> (case status r of Some n \<Rightarrow> n < 0 | None \<Rightarrow> False)"
  by (cases "total r"; cases "connect r"; cases "read r"; cases "redirect r"; cases "status r")
     (auto simp add: is_exhausted_def)

lemma urlopen_finishes_total:
  assumes "total r = Some t" and "nat t < bound"
  shows "fst (urlopen bound r n m net i slept) \<noteq> Inl Unfinished"
  using assms
proof (induction bound arbitrary: r t n i slept)
  case 0
  then show ?case by simp
next
  case (Suc bound)
  have step: "fst (urlopen bound r' n' m net i' slept') \<noteq> Inl Unfinished"
    if "total r' = Some (t - 1)" "\<not> is_exhausted r'" for r' n' i' slept'
  proof -
    from that have "0 \<le> t - 1"
      by (simp add: is_exhausted_cases)
    with Suc.prems have "nat (t - 1) < bound"
      by simp
    from Suc.IH [OF that(1) this] show ?thesis .
  qed
  show ?case
  proof (cases "net i")
    case ConnectError
    with Suc.prems step show ?thesis
      by (simp add: Let_def)
  next
    case ReadError
    with Suc.prems step show ?thesis
      by (simp add: Let_def)
  next
    case (Answered response)
    with Suc.prems step show ?thesis
      by (simp add: Let_def raise_on_status_def)
  qed
qed

lemma urlopen_finishes_counters:
  assumes "connect r = Some c" and "read r = Some rd" and "status r = Some s"
    and "\<not> is_exhausted r"
    and "nat c + nat rd + nat s < bound"
  shows "fst (urlopen bound r n m net i slept) \<noteq> Inl Unfinished"
  using assms
proof (induction bound arbitrary: r c rd s n i slept)
  case 0
  then show ?case by simp
next
  case (Suc bound)
  from Suc.prems have nonneg: "0 \<le> c" "0 \<le> rd" "0 \<le> s"
    by (simp_all add: is_exhausted_cases)
  show ?case
  proof (cases "net i")
    case ConnectError
    let ?r' = "r\<lparr>total := decremented (total r), connect := decremented (connect r)\<rparr>"
    show ?thesis
    proof (cases "is_exhausted ?r'")
      case True
      with ConnectError show ?thesis by (simp add: Let_def)
    next
      case False
      with Suc.prems have "0 \<le> c - 1"
        by (simp add: is_exhausted_cases)
      with Suc.prems nonneg have "nat (c - 1) + nat rd + nat s < bound"
        by simp
      from Suc.IH [of ?r' "c - 1" rd s, OF _ _ _ False this] Suc.prems ConnectError False
      show ?thesis
        by (simp add: Let_def)
    qed
  next
    case ReadError
    let ?r' = "r\<lparr>total := decremented (total r), read := decremented (read r)\<rparr>"
    show ?thesis
    proof (cases "is_method_retryable m \<and> \<not> is_exhausted ?r'")
      case False
      with ReadError show ?thesis by (auto simp add: Let_def)
    next
      case True
      with Suc.prems have "0 \<le> rd - 1"
        by (simp add: is_exhausted_cases)
      with Suc.prems nonneg have "nat c + nat (rd - 1) + nat s < bound"
        by simp
      from Suc.IH [of ?r' c "rd - 1" s, OF _ _ _ _ this] Suc.prems ReadError True
      show ?thesis
        by (simp add: Let_def)
    qed
  next
    case (Answered response)
    let ?r' = "r\<lparr>total := decremented (total r), status := decremented (status r)\<rparr>"
    show ?thesis
    proof (cases "is_retry r m (status_code response) \<and> \<not> is_exhausted ?r'")
      case False
      with Answered show ?thesis by (auto simp add: Let_def raise_on_status_def)
    next
      case True
      with Suc.prems have "0 \<le> s - 1"
        by (simp add: is_exhausted_cases)
      with Suc.prems nonneg have "nat c + nat rd + nat (s - 1) < bound"
        by simp
      from Suc.IH [of ?r' c rd "s - 1", OF _ _ _ _ this] Suc.prems Answered True
      show ?thesis
        by (simp add: Let_def)
    qed
  qed
qed


text \<open>
  The bound on the attempts is not reached under a Retry object with a total, nor under
  one with counters for connection errors, read errors and status codes: the loop ends
  by itself under every Retry object that this file builds.
\<close>

lemma urlopen_within_bound:
  assumes "total r \<noteq> None
           \<or> (connect r \<noteq> None \<and> read r \<noteq> None \<and> status r \<noteq> None \<and> \<not> is_exhausted r)"
  shows "fst (urlopen (attempts_bound r) r n m net i slept) \<noteq> Inl Unfinished"
proof (cases "total r")
  case (Some t)
  have "nat t < attempts_bound r"
    by (simp add: attempts_bound_def left_def Some)
  from urlopen_finishes_total [OF Some this] show ?thesis .
next
  case None
  with assms obtain c rd s' where counters: "connect r = Some c" "read r = Some rd"
      "status r = Some s'" "\<not> is_exhausted r"
    by auto
  have "nat c + nat rd + nat s' < attempts_bound r"
    by (simp add: attempts_bound_def left_def None counters)
  from urlopen_finishes_counters [OF counters this] show ?thesis .
qed

text \<open>
  Under the Retry object of a cloud storage transfer, a connection error is not retried
  and a read error is retried once, whatever the number of status retries.
\<close>

lemma cloud_storage_connect_not_retried:
  "net i = ConnectError \<Longrightarrow>
     urlopen (Suc bound) (cloud_storage_retry s) n m net i slept = (Inl ConnectFailed, slept)"
  by (simp add: cloud_storage_retry_def is_exhausted_cases Let_def)

lemma cloud_storage_read_retried_once:
  "is_method_retryable m \<Longrightarrow> 0 \<le> s \<Longrightarrow> net i = ReadError \<Longrightarrow> net (Suc i) = ReadError \<Longrightarrow>
     urlopen (Suc (Suc bound)) (cloud_storage_retry s) n m net i slept
       = (Inl ReadFailed, slept @ [get_backoff_time (cloud_storage_retry s) (Suc n)])"
  by (simp add: cloud_storage_retry_def is_exhausted_cases Let_def get_backoff_time_def)








subsection \<open>The delays between the attempts\<close>

lemma get_backoff_time_zero_factor:
  "backoff_factor r = 0 \<Longrightarrow> get_backoff_time r n = 0"
  by (simp add: get_backoff_time_def DEFAULT_BACKOFF_MAX_def)

lemma get_backoff_time_doubles:
  "2 \<le> n \<Longrightarrow> backoff_factor r * 2 ^ (n - 1) \<le> 120 \<Longrightarrow>
     get_backoff_time r n = backoff_factor r * 2 ^ (n - 1)"
  by (simp add: get_backoff_time_def DEFAULT_BACKOFF_MAX_def)

text \<open>
  C4. The claim has a delay of backoff\_factor * 2^(i-1) seconds between attempt i and
  attempt i+1: 5 seconds after the first attempt and 10 after the second for the factor
  5, as the docstrings of the source say ("interval 5, 10, 20... seconds"). Under the
  Retry object that the call is made with, urllib3 does not sleep before the first retry
  and never sleeps longer than 120 seconds: against a network that answers 503
  throughout, the delays of a call with 3 retries and the factor 5 are 0, 10 and 20
  seconds, and those of a call with 9 retries are 0, 10, 20, 40, 80 and then 120 each.
\<close>

theorem default_transport_delays:
  "map call_retry
     (snd (http_request (env_example refusing) creds_example ''/api/2.0/x'' 3 5
             [429, 500, 503] 10 (no_kwargs\<lparr>method_kw := Some ''GET''\<rparr>) []))
     = [default_retry 3 5 [429, 500, 503]]
   \<and> snd (urlopen (attempts_bound (default_retry 3 5 [429, 500, 503]))
            (default_retry 3 5 [429, 500, 503]) 0 ''GET'' always_503 0 [])
       = [0, 10, 20]
   \<and> snd (urlopen (attempts_bound (default_retry 9 5 [429, 500, 503]))
            (default_retry 9 5 [429, 500, 503]) 0 ''GET'' always_503 0 [])
       = [0, 10, 20, 40, 80, 120, 120, 120, 120]"
  by code_simp


end
